theory Spec2Isabelle
  imports Main "HOL-Library.AList" "HOL-Library.Word"
begin

section \<open>Strings and numbers of the host language\<close>

text \<open>
  A string is a list of code units; the model covers code units below 256 (one
  \<^typ>\<open>char\<close> each). Numbers that the code prints or parses are natural numbers; a
  host number is a double, so the arithmetic below is the code's own only while every
  value stays at or below \<open>2 ^ 53\<close> (named \<open>safe_integer\<close>), and every theorem that
  depends on it says so.
\<close>

definition digits36 :: string where
  "digits36 = ''0123456789abcdefghijklmnopqrstuvwxyz''"

definition digit_char :: "nat \<Rightarrow> char" where
  "digit_char k = digits36 ! (k mod 36)"

text \<open>\<open>n.toString(b)\<close> for a non-negative integer \<open>n\<close> and a radix \<open>2 \<le> b \<le> 36\<close>.\<close>

function toString_radix :: "nat \<Rightarrow> nat \<Rightarrow> string" where
  "toString_radix b n =
     (if b < 2 \<or> n < b then [digit_char n]
      else toString_radix b (n div b) @ [digit_char (n mod b)])"
  by pat_completeness auto
termination
  by (relation "measure (\<lambda>(b, n). n)") auto


definition is_digit :: "char \<Rightarrow> bool" where
  "is_digit c = (48 \<le> (of_char c :: nat) \<and> (of_char c :: nat) \<le> 57)"

definition digit_val :: "char \<Rightarrow> nat" where
  "digit_val c = of_char c - 48"

text \<open>\<open>Number(s)\<close> for a non-empty string \<open>s\<close> of decimal digits.\<close>

definition Number_digits :: "string \<Rightarrow> nat" where
  "Number_digits s = foldl (\<lambda>acc c. 10 * acc + digit_val c) 0 s"

text \<open>The white space that \<open>String.prototype.trim\<close> removes, among the code units below 256.\<close>

definition is_space :: "char \<Rightarrow> bool" where
  "is_space c = (c \<in> {CHR 0x09, CHR 0x0A, CHR 0x0B, CHR 0x0C, CHR 0x0D, CHR 0x20, CHR 0xA0})"

definition trim :: "string \<Rightarrow> string" where
  "trim s = rev (dropWhile is_space (rev (dropWhile is_space s)))"


section \<open>Values\<close>

text \<open>
  A value of the host language, as far as the handlers look at one. \<open>JNum i\<close> is an
  integer-valued number with \<open>\<bar>i\<bar> < 10 ^ 21\<close> (other numbers are outside the model);
  an object is the list of its properties in insertion order, with distinct keys.
\<close>

datatype jsval =
    JUndefined
  | JNull
  | JBool bool
  | JNum int
  | JStr string
  | JArr "jsval list"
  | JObj "(string \<times> jsval) list"

fun join_comma :: "string list \<Rightarrow> string" where
  "join_comma [] = []"
| "join_comma [s] = s"
| "join_comma (s # t # ss) = s @ '','' @ join_comma (t # ss)"

text \<open>\<open>String(v)\<close>, which is also what a template literal does to \<open>v\<close>.\<close>

fun String_js :: "jsval \<Rightarrow> string" where
  "String_js JUndefined = ''undefined''"
| "String_js JNull = ''null''"
| "String_js (JBool b) = (if b then ''true'' else ''false'')"
| "String_js (JNum i) =
     (if i < 0 then ''-'' @ toString_radix 10 (nat (- i)) else toString_radix 10 (nat i))"
| "String_js (JStr s) = s"
| "String_js (JArr xs) =
     join_comma (map (\<lambda>x. case x of JUndefined \<Rightarrow> [] | JNull \<Rightarrow> [] | _ \<Rightarrow> String_js x) xs)"
| "String_js (JObj fs) = ''[object Object]''"

text \<open>The values that a condition treats as false.\<close>

fun falsy :: "jsval \<Rightarrow> bool" where
  "falsy JUndefined = True"
| "falsy JNull = True"
| "falsy (JBool b) = (\<not> b)"
| "falsy (JNum i) = (i = 0)"
| "falsy (JStr s) = (s = [])"
| "falsy (JArr xs) = False"
| "falsy (JObj fs) = False"

section \<open>The version bump\<close>

text \<open>
  The match of \<open>/^(\d+)(?:\.(\d+))?$/\<close> against \<open>s\<close>: the first group, and the second
  when it took part. \<open>None\<close> when the string does not match.
\<close>

definition match_version :: "string \<Rightarrow> (string \<times> string option) option" where
  "match_version s =
     (let m1 = takeWhile is_digit s; rest = dropWhile is_digit s in
      if m1 = [] then None
      else if rest = [] then Some (m1, None)
      else if hd rest = CHR ''.'' \<and> tl rest \<noteq> [] \<and> list_all is_digit (tl rest)
        then Some (m1, Some (tl rest))
      else None)"

text \<open>
  \<open>bumpVersion\<close> (the same text in both handlers). \<open>Number_digits\<close> and the printing
  of \<open>major\<close> and \<open>minor + 1\<close> are the code's while both groups are safe integers.
\<close>

definition bumpVersion :: "jsval \<Rightarrow> string" where
  "bumpVersion v =
     (if v = JUndefined \<or> v = JNull then ''1.1''
      else
        let s = trim (String_js v) in
        case match_version s of
          None \<Rightarrow> ''1.1''
        | Some (m1, m2) \<Rightarrow>
            let major = Number_digits m1;
                minor = Number_digits (case m2 of None \<Rightarrow> ''0'' | Some d \<Rightarrow> d)
            in toString_radix 10 major @ ''.'' @ toString_radix 10 (minor + 1))"


section \<open>The remote and the world around a handler\<close>

text \<open>What a handler can throw (a rejected promise is a throw at the \<open>await\<close>).\<close>

datatype js_error =
    Error string
  | TypeError
  | ReferenceError string
  | SyntaxError
  | NetworkError
  | InvalidCharacterError

text \<open>
  Base64 text, kept symbolic: \<open>Base64_bytes buf\<close> is \<open>base64FromBytes(buf)\<close>, and
  \<open>Base64_json v\<close> is \<open>base64FromBytes(encoder.encode(JSON.stringify(v, null, 2)))\<close>.
\<close>

datatype base64 =
    Base64_bytes "8 word list"
  | Base64_json jsval

text \<open>
  The requests that the handlers send to the repository API, by endpoint. The API base,
  the repository name and the headers are the same in every request and are left out;
  a branch stands for its URL-encoded form. \<open>PostTree\<close>, \<open>PostCommit\<close> and
  \<open>PatchRef\<close> carry the object that the code serialises as the request body.
\<close>

datatype request =
    GetContents string string
  | PutContents string string base64 string "jsval option"
  | GetRef string
  | GetCommit string
  | PostBlob base64
  | PostTree jsval
  | PostCommit jsval
  | PatchRef string jsval

text \<open>
  A response: its status, its body as text, and its body parsed as JSON (\<open>None\<close>
  when \<open>res.json()\<close> throws). A fetch may also reject.
\<close>

record response =
  status :: nat
  body_text :: string
  body_json :: "jsval option"

datatype fetch_result = Rejects | Resolves response

definition ok :: "response \<Rightarrow> bool" where
  "ok res = (200 \<le> status res \<and> status res \<le> 299)"

text \<open>
  What \<open>JSON.parse(new TextDecoder().decode(Uint8Array.from(atob(s), ...)))\<close> does to a
  string \<open>s\<close>: \<open>atob\<close> throws, or \<open>JSON.parse\<close> throws, or a value comes out.
\<close>

datatype decoded = AtobThrows | ParseThrows | Parsed jsval

text \<open>
  The environment of a run: the remote, any state machine over a state \<open>'w\<close> that
  answers requests, and the decoding built-ins.
\<close>

record 'w env =
  remote :: "request \<Rightarrow> 'w \<Rightarrow> fetch_result \<times> 'w"
  atob_JSON_parse :: "string \<Rightarrow> decoded"

text \<open>What a run does that can be seen from outside, in order.\<close>

datatype event = Fetch request | Sleep nat | Warn string

type_synonym 'w world = "'w \<times> event list"

definition fetch :: "'w env \<Rightarrow> request \<Rightarrow> 'w world \<Rightarrow> fetch_result \<times> 'w world" where
  "fetch E req w =
     (case remote E req (fst w) of (r, s') \<Rightarrow> (r, (s', snd w @ [Fetch req])))"

definition sleep :: "nat \<Rightarrow> 'w world \<Rightarrow> 'w world" where
  "sleep ms w = (fst w, snd w @ [Sleep ms])"


text \<open>Sequencing of steps that may throw.\<close>

type_synonym ('a, 'w) step = "'w world \<Rightarrow> (js_error + 'a) \<times> 'w world"

definition bind :: "('a, 'w) step \<Rightarrow> ('a \<Rightarrow> ('b, 'w) step) \<Rightarrow> ('b, 'w) step" where
  "bind m f w = (case m w of (Inl e, w') \<Rightarrow> (Inl e, w') | (Inr a, w') \<Rightarrow> f a w')"

definition return :: "'a \<Rightarrow> ('a, 'w) step" where
  "return a w = (Inr a, w)"

definition throw :: "js_error \<Rightarrow> ('a, 'w) step" where
  "throw e w = (Inl e, w)"

definition lift :: "js_error + 'a \<Rightarrow> ('a, 'w) step" where
  "lift r w = (r, w)"

text \<open>\<open>await fetch(...)\<close>: a rejected fetch throws.\<close>

definition await_fetch :: "'w env \<Rightarrow> request \<Rightarrow> (response, 'w) step" where
  "await_fetch E req w =
     (case fetch E req w of
        (Rejects, w') \<Rightarrow> (Inl NetworkError, w')
      | (Resolves res, w') \<Rightarrow> (Inr res, w'))"

text \<open>\<open>await res.json()\<close>.\<close>

definition json_of :: "response \<Rightarrow> js_error + jsval" where
  "json_of res = (case body_json res of None \<Rightarrow> Inl SyntaxError | Some v \<Rightarrow> Inr v)"

text \<open>
  Reading a property \<open>v.k\<close>, for the names the handlers read (\<open>object\<close>, \<open>sha\<close>,
  \<open>tree\<close>, \<open>content\<close>, \<open>files\<close>, \<open>version\<close>, \<open>message\<close>): none of them is a
  property of a primitive or of a parsed array.
\<close>

fun get_prop :: "jsval \<Rightarrow> string \<Rightarrow> js_error + jsval" where
  "get_prop JUndefined k = Inl TypeError"
| "get_prop JNull k = Inl TypeError"
| "get_prop (JObj fs) k = Inr (case map_of fs k of None \<Rightarrow> JUndefined | Some v \<Rightarrow> v)"
| "get_prop v k = Inr JUndefined"

text \<open>Optional chaining \<open>v?.k\<close>.\<close>

fun opt_prop :: "jsval \<Rightarrow> string \<Rightarrow> jsval" where
  "opt_prop (JObj fs) k = (case map_of fs k of None \<Rightarrow> JUndefined | Some v \<Rightarrow> v)"
| "opt_prop v k = JUndefined"

text \<open>The message of \<open>new Error(`<what>: ${res.status} ${await res.text()}`)\<close>.\<close>

definition failed_msg :: "string \<Rightarrow> response \<Rightarrow> string" where
  "failed_msg what res = what @ '': '' @ toString_radix 10 (status res) @ '' '' @ body_text res"

section \<open>The commit pipeline\<close>

text \<open>One file of a change-set: \<open>{ contentBase64: string; mode?: string }\<close>.\<close>

record file_spec =
  contentBase64 :: base64
  mode :: "string option"

text \<open>
  A change-set \<open>Record<string, {...}>\<close> is the list of its entries in the order of
  \<open>Object.keys\<close>, with distinct paths.
\<close>

type_synonym change_set = "(string \<times> file_spec) list"

text \<open>Step 1: \<open>ref -> commit sha\<close>.\<close>

definition readHead :: "'w env \<Rightarrow> string \<Rightarrow> (jsval, 'w) step" where
  "readHead E branch =
     bind (await_fetch E (GetRef branch)) (\<lambda>refRes.
       if \<not> ok refRes then throw (Error (failed_msg ''ref fetch failed'' refRes))
       else
         bind (lift (json_of refRes)) (\<lambda>refJson.
         bind (lift (get_prop refJson ''object'')) (\<lambda>obj.
           let parentSha = opt_prop obj ''sha'' in
           if falsy parentSha then throw (Error ''no parent sha'')
           else return parentSha)))"

text \<open>Step 2: \<open>get parent commit -> base tree\<close>.\<close>

definition readBaseTree :: "'w env \<Rightarrow> jsval \<Rightarrow> (jsval, 'w) step" where
  "readBaseTree E parentSha =
     bind (await_fetch E (GetCommit (String_js parentSha))) (\<lambda>commitRes.
       if \<not> ok commitRes then throw (Error (failed_msg ''commit fetch failed'' commitRes))
       else
         bind (lift (json_of commitRes)) (\<lambda>commitJson.
         bind (lift (get_prop commitJson ''tree'')) (\<lambda>tree.
           return (opt_prop tree ''sha''))))"

text \<open>Step 3: \<open>create blobs for each file\<close>; the loop over \<open>Object.keys(files)\<close>.\<close>

fun createBlobs ::
  "'w env \<Rightarrow> change_set \<Rightarrow> (string \<times> jsval) list \<Rightarrow> ((string \<times> jsval) list, 'w) step" where
  "createBlobs E [] blobMap = return blobMap"
| "createBlobs E ((p, f) # rest) blobMap =
     bind (await_fetch E (PostBlob (contentBase64 f))) (\<lambda>bRes.
       if \<not> ok bRes then throw (Error (failed_msg (''blob create failed for '' @ p) bRes))
       else
         bind (lift (json_of bRes)) (\<lambda>bj.
         bind (lift (get_prop bj ''sha'')) (\<lambda>sha.
           createBlobs E rest (AList.update p sha blobMap))))"

text \<open>Step 4, the request: \<open>POST git/trees\<close> with the given body.\<close>

definition createTree :: "'w env \<Rightarrow> jsval \<Rightarrow> jsval \<Rightarrow> (jsval, 'w) step" where
  "createTree E base_tree tree =
     bind (await_fetch E (PostTree (JObj [(''base_tree'', base_tree), (''tree'', tree)]))) (\<lambda>treeRes.
       if \<not> ok treeRes then throw (Error (failed_msg ''tree create failed'' treeRes))
       else
         bind (lift (json_of treeRes)) (\<lambda>treeJson.
           lift (get_prop treeJson ''sha'')))"

text \<open>Step 5: \<open>create commit\<close>.\<close>

definition createCommit :: "'w env \<Rightarrow> string \<Rightarrow> jsval \<Rightarrow> jsval \<Rightarrow> (jsval, 'w) step" where
  "createCommit E message newTreeSha parentSha =
     (let commitBody =
        JObj [(''message'', JStr message), (''tree'', newTreeSha), (''parents'', JArr [parentSha])]
      in
      bind (await_fetch E (PostCommit commitBody)) (\<lambda>newCommitRes.
        if \<not> ok newCommitRes then throw (Error (failed_msg ''commit create failed'' newCommitRes))
        else
          bind (lift (json_of newCommitRes)) (\<lambda>newCommitJson.
            lift (get_prop newCommitJson ''sha''))))"

text \<open>Step 6: \<open>update ref to point to new commit\<close>, and the return of the new commit sha.\<close>

definition updateRef :: "'w env \<Rightarrow> string \<Rightarrow> jsval \<Rightarrow> (jsval, 'w) step" where
  "updateRef E branch newCommitSha =
     bind (await_fetch E (PatchRef branch (JObj [(''sha'', newCommitSha)]))) (\<lambda>updateRes.
       if \<not> ok updateRes then throw (Error (failed_msg ''ref update failed'' updateRes))
       else return newCommitSha)"

subsection \<open>The pipeline of \<open>part_000\<close>\<close>

text \<open>
  \<open>treeEntries\<close>: one entry per path of the change-set, in the order of its keys.
  The loop of step 3 has stored a sha under every path, so \<open>blobMap[p]\<close> is found; a
  path that is missing reads as undefined, as in the code.
\<close>

definition treeEntries :: "change_set \<Rightarrow> (string \<times> jsval) list \<Rightarrow> jsval" where
  "treeEntries files blobMap =
     JArr (map (\<lambda>(p, f).
       JObj [(''path'', JStr (dropWhile (\<lambda>c. c = CHR ''/'') p)),
             (''mode'', JStr (case mode f of None \<Rightarrow> ''100644''
                               | Some m \<Rightarrow> if m = [] then ''100644'' else m)),
             (''type'', JStr ''blob''),
             (''sha'', (case map_of blobMap p of None \<Rightarrow> JUndefined | Some s \<Rightarrow> s))]) files)"


subsection \<open>The pipeline of \<open>part_001\<close>\<close>

text \<open>
  \<open>part_001\<close> builds the body of step 4 from the identifiers \<open>base_tree\<close> and
  \<open>treeEntries\<close>. Neither is declared in \<open>part_001\<close> (the function binds
  \<open>baseTree\<close> and \<open>blobMap\<close> only, and the module has no such top-level name), so
  evaluating either one throws a ReferenceError before the request is made.
\<close>

definition unbound_identifier :: "string \<Rightarrow> (jsval, 'w) step" where
  "unbound_identifier x = throw (ReferenceError (x @ '' is not defined''))"

text \<open>The body of the \<open>try\<close> block: one attempt.\<close>

definition attempt_001 ::
  "'w env \<Rightarrow> string \<Rightarrow> change_set \<Rightarrow> string \<Rightarrow> (jsval, 'w) step" where
  "attempt_001 E branch files message =
     bind (readHead E branch) (\<lambda>parentSha.
     bind (readBaseTree E parentSha) (\<lambda>baseTree.
     bind (createBlobs E files []) (\<lambda>blobMap.
     bind (unbound_identifier ''base_tree'') (\<lambda>base_tree.
     bind (unbound_identifier ''treeEntries'') (\<lambda>treeEntries.
     bind (createTree E base_tree treeEntries) (\<lambda>newTreeSha.
     bind (createCommit E message newTreeSha parentSha) (\<lambda>newCommitSha.
       updateRef E branch newCommitSha)))))))"

text \<open>
  The retry loop \<open>for (let attempt = 1; attempt <= 3; attempt++)\<close> around the
  \<open>try\<close> block, with its \<open>catch\<close>, and the \<open>throw\<close> after the loop.
\<close>

function retry_001 ::
  "'w env \<Rightarrow> string \<Rightarrow> change_set \<Rightarrow> string \<Rightarrow> nat \<Rightarrow> (jsval, 'w) step" where
  "retry_001 E branch files message attempt w =
     (if attempt \<le> 3 then
        (case attempt_001 E branch files message w of
           (Inr newCommitSha, w') \<Rightarrow> (Inr newCommitSha, w')
         | (Inl err, w') \<Rightarrow>
             if attempt < 3
             then retry_001 E branch files message (attempt + 1) (sleep (200 * attempt) w')
             else (Inl err, w'))
      else (Inl (Error ''unreachable''), w))"
  by pat_completeness auto
termination
  by (relation "measure (\<lambda>(E, branch, files, message, attempt, w). 4 - attempt)") auto

definition commitFilesAtomically_001 ::
  "'w env \<Rightarrow> string \<Rightarrow> change_set \<Rightarrow> string \<Rightarrow> (jsval, 'w) step" where
  "commitFilesAtomically_001 E branch files message = retry_001 E branch files message 1"

section \<open>The helpers of the handlers\<close>

definition is_alnum :: "char \<Rightarrow> bool" where
  "is_alnum c =
     (let n = (of_char c :: nat) in
      (48 \<le> n \<and> n \<le> 57) \<or> (65 \<le> n \<and> n \<le> 90) \<or> (97 \<le> n \<and> n \<le> 122))"

definition slash :: "char \<Rightarrow> bool" where
  "slash c = (c = CHR ''/'')"

text \<open>
  \<open>s.replaceAll(/[^a-zA-Z0-9._-]/g, "_").replace(/^_+/, "").slice(0, 180) || "file.bin"\<close>
\<close>

definition sanitizeFilename :: "string \<Rightarrow> string" where
  "sanitizeFilename s =
     (let t = take 180 (dropWhile (\<lambda>c. c = CHR ''_'')
                (map (\<lambda>c. if is_alnum c \<or> c = CHR ''.'' \<or> c = CHR ''_'' \<or> c = CHR ''-''
                          then c else CHR ''_'') s))
      in if t = [] then ''file.bin'' else t)"

text \<open>
  \<open>(s || "").replaceAll(/[^a-zA-Z0-9/_-]/g, "_").replace(/^\/+/, "").replace(/\/+$/, "")\<close>
\<close>

definition sanitizeDirAllowEmpty :: "string \<Rightarrow> string" where
  "sanitizeDirAllowEmpty s =
     rev (dropWhile slash (rev (dropWhile slash
       (map (\<lambda>c. if is_alnum c \<or> c = CHR ''/'' \<or> c = CHR ''_'' \<or> c = CHR ''-''
                 then c else CHR ''_'') s))))"

text \<open>
  \<open>uniquePrefix\<close>: \<open>date_now\<close> is \<open>Date.now()\<close> and \<open>random_36\<close> is
  \<open>Math.random().toString(36)\<close>, of which the code keeps \<open>slice(2, 6)\<close>.
\<close>

definition uniquePrefix :: "nat \<Rightarrow> string \<Rightarrow> string" where
  "uniquePrefix date_now random_36 =
     (let t = toString_radix 36 date_now;
          r = take 4 (drop 2 random_36)
      in t @ ''-'' @ r)"

text \<open>\<open>safeJSON\<close> applied to the text of a response.\<close>

definition safeJSON :: "response \<Rightarrow> jsval" where
  "safeJSON res = (case body_json res of None \<Rightarrow> JStr (body_text res) | Some v \<Rightarrow> v)"

text \<open>\<open>s.includes(sub)\<close>.\<close>

fun includes_js :: "string \<Rightarrow> string \<Rightarrow> bool" where
  "includes_js [] sub = (sub = [])"
| "includes_js (c # cs) sub = (take (length sub) (c # cs) = sub \<or> includes_js cs sub)"

text \<open>\<open>s.toLowerCase()\<close> on the letters of ASCII.\<close>

definition toLowerCase :: "string \<Rightarrow> string" where
  "toLowerCase s =
     map (\<lambda>c. case map_of (zip ''ABCDEFGHIJKLMNOPQRSTUVWXYZ'' ''abcdefghijklmnopqrstuvwxyz'') c of
                None \<Rightarrow> c | Some l \<Rightarrow> l) s"

text \<open>\<open>dir ? `${dir}/${name}` : name\<close>.\<close>

definition join_path :: "string \<Rightarrow> string \<Rightarrow> string" where
  "join_path dir name = (if dir \<noteq> [] then dir @ ''/'' @ name else name)"

section \<open>The upload request and its answer\<close>

record upload_file =
  file_name :: string
  file_type :: string
  file_bytes :: "8 word list"

text \<open>
  The headers and the form fields that the handlers read, the form taken as parsed;
  \<open>None\<close> is an absent one.
\<close>

record upload_request =
  header_admin_token :: "string option"
  header_content_type :: "string option"
  form_file :: "upload_file option"
  form_dir :: "string option"
  form_filename :: "string option"
  form_overwrite :: "string option"

record config =
  GH_REPO :: string
  GH_BRANCH :: "string option"
  ADMIN_TOKEN :: string

text \<open>
  What the clock and the random generator give during one request: \<open>Date.now()\<close> and
  \<open>Math.random().toString(36)\<close> in \<open>uniquePrefix\<close>, and \<open>new Date().toISOString()\<close>
  for the default manifest, for the entry and for \<open>generated_at\<close>.
\<close>

record readings =
  date_now :: nat
  random_36 :: string
  iso_default :: string
  iso_uploaded :: string
  iso_generated :: string

text \<open>\<open>cors(env, json(obj, status), request)\<close>: the headers are left out.\<close>

datatype http_response = JsonResponse jsval nat

definition maxBytes :: nat where
  "maxBytes = 20 * 1024 * 1024"

definition contentPath :: string where
  "contentPath = ''content.json''"

text \<open>The file name and the directory that both handlers derive from the form.\<close>

definition dir_of :: "upload_request \<Rightarrow> string" where
  "dir_of req = sanitizeDirAllowEmpty (case form_dir req of None \<Rightarrow> [] | Some d \<Rightarrow> d)"

definition overwrite_of :: "upload_request \<Rightarrow> bool" where
  "overwrite_of req =
     (toLowerCase (case form_overwrite req of None \<Rightarrow> [] | Some s \<Rightarrow> s) = ''true'')"

definition finalName_of :: "upload_request \<Rightarrow> upload_file \<Rightarrow> string" where
  "finalName_of req f =
     (let customFilename = (case form_filename req of None \<Rightarrow> [] | Some s \<Rightarrow> s);
          orig = (if file_name f \<noteq> [] then file_name f else ''upload.bin'');
          safeOrig = sanitizeFilename (if customFilename \<noteq> [] then customFilename else orig);
          hasExt = (CHR ''.'' \<in> set safeOrig);
          origExt = (if CHR ''.'' \<in> set orig
                     then rev (takeWhile (\<lambda>c. c \<noteq> CHR ''.'') (rev orig)) else [])
      in if hasExt then safeOrig
         else if origExt \<noteq> [] then safeOrig @ ''.'' @ origExt else safeOrig)"

definition default_manifest :: "string \<Rightarrow> jsval" where
  "default_manifest now =
     JObj [(''version'', JNum 1), (''generated_at'', JStr now), (''files'', JArr [])]"

text \<open>
  Writing a property \<open>v.k = x\<close>. The handlers are modules, hence strict code: writing to
  a primitive throws. A named property written to an array is not part of what
  \<open>JSON.stringify\<close> writes for it, and the handlers only serialise the value afterwards,
  so the array stays as it is.
\<close>

fun set_prop :: "jsval \<Rightarrow> string \<Rightarrow> jsval \<Rightarrow> js_error + jsval" where
  "set_prop (JObj fs) k x = Inr (JObj (AList.update k x fs))"
| "set_prop (JArr xs) k x = Inr (JArr xs)"
| "set_prop v k x = Inl TypeError"

text \<open>
  The entry and the new manifest (the same text in both handlers): the entry goes to the
  front of \<open>files\<close>, \<open>version\<close> is bumped and \<open>generated_at\<close> is set.
\<close>

definition normDir_of :: "string \<Rightarrow> string" where
  "normDir_of dir =
     (if dir \<noteq> [] then ''/'' @ rev (dropWhile slash (rev (dropWhile slash dir))) else ''/'')"

definition entry_path :: "string \<Rightarrow> string \<Rightarrow> string" where
  "entry_path dir targetName =
     (let normDir = normDir_of dir in
      if normDir = ''/'' then ''/'' @ targetName else normDir @ ''/'' @ targetName)"

definition entry_of :: "string \<Rightarrow> string \<Rightarrow> string \<Rightarrow> string \<Rightarrow> jsval" where
  "entry_of dir targetName ftype uploaded_at =
     JObj [(''dir'', JStr (normDir_of dir)),
           (''name'', JStr targetName),
           (''path'', JStr (entry_path dir targetName)),
           (''type'', (if ftype \<noteq> [] then JStr ftype else JNull)),
           (''description'', JStr []),
           (''uploaded_at'', JStr uploaded_at)]"

definition updateManifest :: "jsval \<Rightarrow> jsval \<Rightarrow> string \<Rightarrow> js_error + jsval" where
  "updateManifest contentObj entry generated_at =
     (case get_prop contentObj ''files'' of
        Inl e \<Rightarrow> Inl e
      | Inr files \<Rightarrow>
          (case (case files of JArr xs \<Rightarrow> set_prop contentObj ''files'' (JArr (entry # xs))
                             | _ \<Rightarrow> set_prop contentObj ''files'' (JArr [entry])) of
             Inl e \<Rightarrow> Inl e
           | Inr c1 \<Rightarrow>
               (case get_prop c1 ''version'' of
                  Inl e \<Rightarrow> Inl e
                | Inr v \<Rightarrow>
                    (case set_prop c1 ''version'' (JStr (bumpVersion v)) of
                       Inl e \<Rightarrow> Inl e
                     | Inr c2 \<Rightarrow> set_prop c2 ''generated_at'' (JStr generated_at)))))"

text \<open>The checks that both handlers make first, and what they answer when one fails.\<close>

definition unauthorized :: "config \<Rightarrow> upload_request \<Rightarrow> bool" where
  "unauthorized cfg req =
     (case header_admin_token req of None \<Rightarrow> True | Some t \<Rightarrow> t = [] \<or> t \<noteq> ADMIN_TOKEN cfg)"

definition is_multipart :: "upload_request \<Rightarrow> bool" where
  "is_multipart req =
     includes_js (case header_content_type req of None \<Rightarrow> [] | Some c \<Rightarrow> c) ''multipart/form-data''"

definition error_response :: "string \<Rightarrow> nat \<Rightarrow> http_response" where
  "error_response msg st = JsonResponse (JObj [(''error'', JStr msg)]) st"

definition too_large :: http_response where
  "too_large =
     error_response (''File too large (> '' @ toString_radix 10 maxBytes @ '' bytes)'') 413"

definition branch_of :: "config \<Rightarrow> string" where
  "branch_of cfg = (case GH_BRANCH cfg of None \<Rightarrow> ''main'' | Some b \<Rightarrow> if b = [] then ''main'' else b)"

definition rawUrl_of :: "config \<Rightarrow> string \<Rightarrow> string" where
  "rawUrl_of cfg safePath =
     ''https://raw.githubusercontent.com/'' @ GH_REPO cfg @ ''/'' @ branch_of cfg @ ''/'' @ safePath"

text \<open>
  \<open>String(meta.content || "").replace(/\n/g, "")\<close>, decoded and parsed inside the
  \<open>try\<close> whose \<open>catch\<close> gives the default manifest; \<open>atob\<close> is outside that \<open>try\<close>.
\<close>

definition rawB64_of :: "jsval \<Rightarrow> string" where
  "rawB64_of content =
     filter (\<lambda>c. c \<noteq> CHR 0x0A) (String_js (if falsy content then JStr [] else content))"

definition decode_manifest :: "'w env \<Rightarrow> jsval \<Rightarrow> string \<Rightarrow> js_error + jsval" where
  "decode_manifest E content now =
     (case atob_JSON_parse E (rawB64_of content) of
        AtobThrows \<Rightarrow> Inl InvalidCharacterError
      | ParseThrows \<Rightarrow> Inr (default_manifest now)
      | Parsed v \<Rightarrow> Inr v)"

section \<open>The handler of \<open>part_001\<close>\<close>

text \<open>
  Lines 62 to 77: with \<open>overwrite\<close> false the handler asks whether the path exists and
  renames on a hit. The result is \<open>(targetName, safePath)\<close>, or the response of the
  early return.
\<close>

definition resolvePath_001 ::
  "'w env \<Rightarrow> string \<Rightarrow> bool \<Rightarrow> string \<Rightarrow> string \<Rightarrow> readings
     \<Rightarrow> (http_response + string \<times> string, 'w) step" where
  "resolvePath_001 E branch overwrite dir finalName rd =
     (let targetName = finalName; safePath = join_path dir targetName in
      if \<not> overwrite then
        bind (await_fetch E (GetContents safePath branch)) (\<lambda>checkRes.
          if ok checkRes then
            let targetName = uniquePrefix (date_now rd) (random_36 rd) @ ''-'' @ finalName
            in return (Inr (targetName, join_path dir targetName))
          else if status checkRes \<noteq> 404 then
            return (Inl (JsonResponse
              (JObj [(''error'', JStr ''Failed to check existing file''),
                     (''status'', JNum (int (status checkRes))),
                     (''detail'', safeJSON checkRes)]) 502))
          else return (Inr (targetName, safePath)))
      else return (Inr (targetName, safePath)))"

text \<open>Lines 80 to 100: the current manifest, or the default one, or the early return.\<close>

definition fetchManifest_001 ::
  "'w env \<Rightarrow> string \<Rightarrow> readings \<Rightarrow> (http_response + jsval, 'w) step" where
  "fetchManifest_001 E branch rd =
     bind (await_fetch E (GetContents contentPath branch)) (\<lambda>getRes.
       if ok getRes then
         bind (lift (json_of getRes)) (\<lambda>meta.
         bind (lift (get_prop meta ''content'')) (\<lambda>content.
         bind (lift (decode_manifest E content (iso_default rd))) (\<lambda>contentObj.
           return (Inr contentObj))))
       else if status getRes = 404 then return (Inr (default_manifest (iso_default rd)))
       else
         return (Inl (JsonResponse
           (JObj [(''error'', JStr ''Failed to fetch content.json''),
                  (''status'', JNum (int (status getRes))),
                  (''detail'', JStr (body_text getRes))]) 502)))"

text \<open>
  Lines 132 to 136: the object literal with the two computed keys. A literal that names
  the same key twice keeps one property, with the later value.
\<close>

definition filesToCommit :: "string \<Rightarrow> base64 \<Rightarrow> base64 \<Rightarrow> change_set" where
  "filesToCommit safePath b64 contentB64 =
     AList.update contentPath \<lparr>contentBase64 = contentB64, mode = None\<rparr>
       [(safePath, \<lparr>contentBase64 = b64, mode = None\<rparr>)]"

definition onRequestPost_001 ::
  "'w env \<Rightarrow> config \<Rightarrow> readings \<Rightarrow> upload_request \<Rightarrow> (http_response, 'w) step" where
  "onRequestPost_001 E cfg rd req =
     (if unauthorized cfg req then return (error_response ''Unauthorized'' 401)
      else if \<not> is_multipart req then return (error_response ''Use multipart/form-data'' 400)
      else
        case form_file req of
          None \<Rightarrow> return (error_response ''Missing file'' 400)
        | Some f \<Rightarrow>
            let dir = dir_of req;
                overwrite = overwrite_of req;
                finalName = finalName_of req f;
                branch = branch_of cfg
            in
            if length (file_bytes f) > maxBytes then return too_large
            else
              bind (resolvePath_001 E branch overwrite dir finalName rd) (\<lambda>r.
                case r of
                  Inl resp \<Rightarrow> return resp
                | Inr (targetName, safePath) \<Rightarrow>
                    bind (fetchManifest_001 E branch rd) (\<lambda>m.
                      case m of
                        Inl resp \<Rightarrow> return resp
                      | Inr contentObj \<Rightarrow>
                          bind (lift (updateManifest contentObj
                                  (entry_of dir targetName (file_type f) (iso_uploaded rd))
                                  (iso_generated rd))) (\<lambda>newContent.
                          bind (commitFilesAtomically_001 E branch
                                  (filesToCommit safePath (Base64_bytes (file_bytes f))
                                     (Base64_json newContent))
                                  (''Upload '' @ targetName @ '' and update content.json'')) (\<lambda>newCommitSha.
                            return (JsonResponse
                              (JObj [(''ok'', JBool True),
                                     (''path'', JStr safePath),
                                     (''filename'', JStr targetName),
                                     (''rawUrl'', JStr (rawUrl_of cfg safePath))]) 200))))))"

section \<open>The handler of \<open>part_000\<close>\<close>








section \<open>What a run leaves in its trace\<close>

text \<open>The events that a run adds to the trace it started with.\<close>

definition new_events :: "'w world \<Rightarrow> 'w world \<Rightarrow> event list" where
  "new_events w w' = drop (length (snd w)) (snd w')"

text \<open>A step emits \<open>P\<close> when it only appends events, and all of them satisfy \<open>P\<close>.\<close>

definition emits :: "(event \<Rightarrow> bool) \<Rightarrow> ('a, 'w) step \<Rightarrow> bool" where
  "emits P m = (\<forall>w. \<exists>tr. snd (snd (m w)) = snd w @ tr \<and> list_all P tr)"

text \<open>The events of the steps before the tree is created (steps 1 to 3) and of the delays.\<close>

fun before_tree :: "event \<Rightarrow> bool" where
  "before_tree (Fetch (GetRef b)) = True"
| "before_tree (Fetch (GetCommit s)) = True"
| "before_tree (Fetch (PostBlob c)) = True"
| "before_tree (Sleep n) = True"
| "before_tree e = False"

text \<open>The events of an attempt after its first request: steps 2 and 3.\<close>

fun after_head :: "event \<Rightarrow> bool" where
  "after_head (Fetch (GetCommit s)) = True"
| "after_head (Fetch (PostBlob c)) = True"
| "after_head e = False"

fun is_sleep :: "event \<Rightarrow> bool" where
  "is_sleep (Sleep n) = True"
| "is_sleep e = False"

section \<open>A scripted remote, for concrete runs\<close>

text \<open>
  A remote that answers the requests of a run with the responses of a script, in order,
  whatever is asked; when the script is used up, every fetch rejects.
\<close>

definition scripted :: "request \<Rightarrow> fetch_result list \<Rightarrow> fetch_result \<times> fetch_result list" where
  "scripted req script = (case script of [] \<Rightarrow> (Rejects, []) | r # rs \<Rightarrow> (r, rs))"

definition reply :: "nat \<Rightarrow> jsval \<Rightarrow> fetch_result" where
  "reply st v = Resolves \<lparr>status = st, body_text = [], body_json = Some v\<rparr>"

definition reply_text :: "nat \<Rightarrow> string \<Rightarrow> fetch_result" where
  "reply_text st t = Resolves \<lparr>status = st, body_text = t, body_json = None\<rparr>"

definition scripted_env :: "decoded \<Rightarrow> fetch_result list env" where
  "scripted_env d = \<lparr>remote = scripted, atob_JSON_parse = (\<lambda>s. d)\<rparr>"

text \<open>The answers of a remote that accepts: the head, its commit, and a created object.\<close>

definition ref_at :: "string \<Rightarrow> fetch_result" where
  "ref_at sha = reply 200 (JObj [(''object'', JObj [(''sha'', JStr sha)])])"

definition commit_with_tree :: "string \<Rightarrow> fetch_result" where
  "commit_with_tree sha = reply 200 (JObj [(''tree'', JObj [(''sha'', JStr sha)])])"

definition created :: "string \<Rightarrow> fetch_result" where
  "created sha = reply 201 (JObj [(''sha'', JStr sha)])"

text \<open>A change-set of two files, as the handler of \<open>part_001\<close> builds it.\<close>

definition two_files :: change_set where
  "two_files = filesToCommit ''images/photo.png'' (Base64_bytes [1, 2, 3]) (Base64_json (JObj []))"

text \<open>The inputs of the concrete runs: a configuration, clock readings, and an upload.\<close>

definition pool_config :: config where
  "pool_config = \<lparr>GH_REPO = ''nagito-hiroshima/pool'', GH_BRANCH = None, ADMIN_TOKEN = ''secret''\<rparr>"

definition readings_at :: "nat \<Rightarrow> string \<Rightarrow> readings" where
  "readings_at n r =
     \<lparr>date_now = n, random_36 = r, iso_default = ''2024-10-27T03:33:20.000Z'',
      iso_uploaded = ''2024-10-27T03:33:20.001Z'', iso_generated = ''2024-10-27T03:33:20.002Z''\<rparr>"

definition upload_of :: "string \<Rightarrow> string \<Rightarrow> string \<Rightarrow> upload_request" where
  "upload_of dir fname overwrite =
     \<lparr>header_admin_token = Some ''secret'',
      header_content_type = Some ''multipart/form-data; boundary=x'',
      form_file = Some \<lparr>file_name = fname, file_type = ''image/png'', file_bytes = [1, 2, 3]\<rparr>,
      form_dir = Some dir,
      form_filename = None,
      form_overwrite = Some overwrite\<rparr>"



section \<open>Properties\<close>

subsection \<open>The version bump\<close>













subsection \<open>Steps and their traces\<close>

lemma bind_throw [simp]: "bind (throw e) f = throw e"
  by (rule ext) (simp add: bind_def throw_def)

lemma bind_return [simp]: "bind (return a) f = f a"
  by (rule ext) (simp add: bind_def return_def)

lemma emits_return: "emits P (return a)"
  by (simp add: emits_def return_def)

lemma emits_throw: "emits P (throw e)"
  by (simp add: emits_def throw_def)

lemma emits_lift: "emits P (lift r)"
  by (simp add: emits_def lift_def)

lemma emits_fetch: "P (Fetch req) \<Longrightarrow> emits P (await_fetch E req)"
  by (auto simp: emits_def await_fetch_def fetch_def split: prod.splits fetch_result.splits)

lemma emits_bind:
  assumes "emits P m" and "\<And>a. emits P (f a)"
  shows "emits P (bind m f)"
  unfolding emits_def
proof
  fix w
  from assms(1) obtain t1 where t1: "snd (snd (m w)) = snd w @ t1" "list_all P t1"
    unfolding emits_def by blast
  obtain r w1 where mw: "m w = (r, w1)"
    using prod.exhaust by blast
  show "\<exists>tr. snd (snd (bind m f w)) = snd w @ tr \<and> list_all P tr"
  proof (cases r)
    case (Inl e)
    with mw t1 show ?thesis by (auto simp: bind_def)
  next
    case (Inr a)
    from assms(2) [of a] obtain t2 where "snd (snd (f a w1)) = snd w1 @ t2" "list_all P t2"
      unfolding emits_def by blast
    with mw Inr t1 show ?thesis by (auto simp: bind_def)
  qed
qed

lemma emits_if: "emits P m \<Longrightarrow> emits P n \<Longrightarrow> emits P (if c then m else n)"
  by simp

lemmas emits_intros = emits_bind emits_return emits_throw emits_lift emits_fetch emits_if

lemma emits_readHead: "P (Fetch (GetRef b)) \<Longrightarrow> emits P (readHead E b)"
  unfolding readHead_def Let_def by (intro emits_intros)

lemma emits_readBaseTree: "(\<And>s. P (Fetch (GetCommit s))) \<Longrightarrow> emits P (readBaseTree E p)"
  unfolding readBaseTree_def by (intro emits_intros)

lemma emits_createBlobs: "(\<And>c. P (Fetch (PostBlob c))) \<Longrightarrow> emits P (createBlobs E fs bm)"
proof (induction fs arbitrary: bm)
  case Nil
  show ?case by (simp add: emits_return)
next
  case (Cons pf fs)
  obtain p f where "pf = (p, f)" by (cases pf)
  with Cons show ?case by (auto intro!: emits_intros)
qed

lemma attempt_001_eq:
  "attempt_001 E b fs m =
     bind (readHead E b) (\<lambda>parentSha.
     bind (readBaseTree E parentSha) (\<lambda>baseTree.
     bind (createBlobs E fs []) (\<lambda>blobMap.
       throw (ReferenceError ''base_tree is not defined''))))"
  by (simp add: attempt_001_def unbound_identifier_def)

lemma attempt_001_Inl: "\<exists>e w'. attempt_001 E b fs m w = (Inl e, w')"
  unfolding attempt_001_eq
  by (auto simp: bind_def throw_def split: prod.splits sum.splits)

lemma retry_unroll:
  "commitFilesAtomically_001 E b fs m w =
     (case attempt_001 E b fs m w of
        (Inr sha, w1) \<Rightarrow> (Inr sha, w1)
      | (Inl e1, w1) \<Rightarrow>
          (case attempt_001 E b fs m (sleep 200 w1) of
             (Inr sha, w2) \<Rightarrow> (Inr sha, w2)
           | (Inl e2, w2) \<Rightarrow> attempt_001 E b fs m (sleep 400 w2)))"
  by (simp add: commitFilesAtomically_001_def split: prod.splits sum.splits)

lemma readHead_trace: "snd (snd (readHead E b w)) = snd w @ [Fetch (GetRef b)]"
  by (simp add: readHead_def bind_def await_fetch_def fetch_def throw_def return_def lift_def Let_def
      split: prod.splits fetch_result.splits sum.splits)

lemma attempt_001_trace:
  "\<exists>e w' t. attempt_001 E b fs m w = (Inl e, w') \<and>
      snd w' = snd w @ Fetch (GetRef b) # t \<and> list_all after_head t"
proof -
  obtain r w1 where h: "readHead E b w = (r, w1)"
    using prod.exhaust by blast
  with readHead_trace [of E b w] have t1: "snd w1 = snd w @ [Fetch (GetRef b)]"
    by simp
  show ?thesis
  proof (cases r)
    case (Inl e)
    with h t1 show ?thesis by (simp add: attempt_001_eq bind_def)
  next
    case (Inr p)
    let ?rest = "bind (readBaseTree E p) (\<lambda>baseTree.
       bind (createBlobs E fs []) (\<lambda>blobMap.
         throw (ReferenceError ''base_tree is not defined'') :: (jsval, 'a) step))"
    have "emits after_head ?rest"
      by (intro emits_bind emits_throw emits_readBaseTree emits_createBlobs) simp_all
    then obtain t where t: "snd (snd (?rest w1)) = snd w1 @ t" "list_all after_head t"
      unfolding emits_def by blast
    have a: "attempt_001 E b fs m w = ?rest w1"
      using h Inr by (simp add: attempt_001_eq bind_def)
    obtain e w' where ew: "attempt_001 E b fs m w = (Inl e, w')"
      using attempt_001_Inl by blast
    from a ew have "?rest w1 = (Inl e, w')" by simp
    with t(1) have "snd w' = snd w1 @ t" by simp
    with t1 have "snd w' = snd w @ Fetch (GetRef b) # t" by simp
    with ew t(2) show ?thesis by blast
  qed
qed

lemma commit_001_run:
  "\<exists>e1 w1 e2 w2 e3 w3 t1 t2 t3.
     attempt_001 E b fs m w = (Inl e1, w1) \<and>
     attempt_001 E b fs m (sleep 200 w1) = (Inl e2, w2) \<and>
     attempt_001 E b fs m (sleep 400 w2) = (Inl e3, w3) \<and>
     commitFilesAtomically_001 E b fs m w = (Inl e3, w3) \<and>
     snd w1 = snd w @ Fetch (GetRef b) # t1 \<and>
     snd w2 = snd w1 @ Sleep 200 # Fetch (GetRef b) # t2 \<and>
     snd w3 = snd w2 @ Sleep 400 # Fetch (GetRef b) # t3 \<and>
     list_all after_head t1 \<and> list_all after_head t2 \<and> list_all after_head t3"
proof -
  obtain e1 w1 t1 where a1: "attempt_001 E b fs m w = (Inl e1, w1)"
    "snd w1 = snd w @ Fetch (GetRef b) # t1" "list_all after_head t1"
    using attempt_001_trace by blast
  obtain e2 w2 t2 where a2: "attempt_001 E b fs m (sleep 200 w1) = (Inl e2, w2)"
    "snd w2 = snd (sleep 200 w1) @ Fetch (GetRef b) # t2" "list_all after_head t2"
    using attempt_001_trace by blast
  obtain e3 w3 t3 where a3: "attempt_001 E b fs m (sleep 400 w2) = (Inl e3, w3)"
    "snd w3 = snd (sleep 400 w2) @ Fetch (GetRef b) # t3" "list_all after_head t3"
    using attempt_001_trace by blast
  have c: "commitFilesAtomically_001 E b fs m w = (Inl e3, w3)"
    using a1(1) a2(1) a3(1) by (simp add: retry_unroll)
  have s2: "snd w2 = snd w1 @ Sleep 200 # Fetch (GetRef b) # t2"
    using a2(2) by (simp add: sleep_def)
  have s3: "snd w3 = snd w2 @ Sleep 400 # Fetch (GetRef b) # t3"
    using a3(2) by (simp add: sleep_def)
  from a1 a2(1,3) a3(1,3) c s2 s3 show ?thesis
    by blast
qed

lemma after_head_before_tree: "list_all after_head t \<Longrightarrow> list_all before_tree t"
proof (induction t)
  case Nil show ?case by simp
next
  case (Cons e t)
  then show ?case by (cases e rule: after_head.cases) simp_all
qed

lemma after_head_no_sleep: "list_all after_head t \<Longrightarrow> filter is_sleep t = []"
proof (induction t)
  case Nil show ?case by simp
next
  case (Cons e t)
  then show ?case by (cases e rule: after_head.cases) simp_all
qed

lemma after_head_no_GetRef: "list_all after_head t \<Longrightarrow> filter (\<lambda>e. e = Fetch (GetRef b)) t = []"
proof (induction t)
  case Nil show ?case by simp
next
  case (Cons e t)
  then show ?case by (cases e rule: after_head.cases) simp_all
qed








lemmas step_eval = bind_def return_def throw_def lift_def await_fetch_def fetch_def sleep_def
  scripted_def scripted_env_def reply_def reply_text_def ref_at_def commit_with_tree_def created_def
  ok_def json_of_def failed_msg_def digit_char_def digits36_def
  readHead_def readBaseTree_def createTree_def createCommit_def updateRef_def
  unbound_identifier_def attempt_001_def

subsection \<open>The pipeline of \<open>part_001\<close> never gets past the tree step\<close>

text \<open>
  Claim C2. In \<open>part_001\<close> the body of the tree request is built from \<open>base_tree\<close>
  and \<open>treeEntries\<close>, which nothing binds. So an attempt is steps 1 to 3 followed by a
  ReferenceError: for every remote, every change-set and every starting state an attempt
  throws, \<open>commitFilesAtomically\<close> throws too and never returns a commit sha, and the
  run sends nothing but the reads of the head and of its commit and the blobs (no tree,
  no commit, no ref update).
\<close>

theorem tree_step_throws_001:
  "attempt_001 E b fs m =
     bind (readHead E b) (\<lambda>parentSha.
     bind (readBaseTree E parentSha) (\<lambda>baseTree.
     bind (createBlobs E fs []) (\<lambda>blobMap.
       throw (ReferenceError ''base_tree is not defined'')))) \<and>
   isl (fst (attempt_001 E b fs m w)) \<and>
   isl (fst (commitFilesAtomically_001 E b fs m w)) \<and>
   list_all before_tree (new_events w (snd (commitFilesAtomically_001 E b fs m w)))"
proof -
  obtain e1 w1 e2 w2 e3 w3 t1 t2 t3 where a:
    "attempt_001 E b fs m w = (Inl e1, w1)"
    "attempt_001 E b fs m (sleep 200 w1) = (Inl e2, w2)"
    "attempt_001 E b fs m (sleep 400 w2) = (Inl e3, w3)"
    and r:
    "commitFilesAtomically_001 E b fs m w = (Inl e3, w3)"
    "snd w1 = snd w @ Fetch (GetRef b) # t1"
    "snd w2 = snd w1 @ Sleep 200 # Fetch (GetRef b) # t2"
    "snd w3 = snd w2 @ Sleep 400 # Fetch (GetRef b) # t3"
    "list_all after_head t1" "list_all after_head t2" "list_all after_head t3"
    using commit_001_run [of E b fs m w] by blast
  have "new_events w w3 =
      Fetch (GetRef b) # t1 @ Sleep 200 # Fetch (GetRef b) # t2 @ Sleep 400 # Fetch (GetRef b) # t3"
    using r(2,3,4) by (simp add: new_events_def)
  with r(5,6,7) have "list_all before_tree (new_events w w3)"
    by (simp add: after_head_before_tree)
  with a(1) r(1) attempt_001_eq [of E b fs m] show ?thesis
    by simp
qed

subsection \<open>The retry loop\<close>

text \<open>
  Claim C5. The loop makes at most three attempts: the first, a second one 200 ms
  (200 times the attempt index 1) after a failed first, and a third one 400 ms (200 times
  2) after a failed second, whose outcome is the outcome of the call, error or not. So
  the loop ends and the error of the third attempt is the one that surfaces. In every
  run the delays are exactly 200 and 400 ms and the head is read exactly three times.
\<close>

theorem three_attempts_001:
  "commitFilesAtomically_001 E b fs m w =
     (case attempt_001 E b fs m w of
        (Inr sha, w1) \<Rightarrow> (Inr sha, w1)
      | (Inl e1, w1) \<Rightarrow>
          (case attempt_001 E b fs m (sleep 200 w1) of
             (Inr sha, w2) \<Rightarrow> (Inr sha, w2)
           | (Inl e2, w2) \<Rightarrow> attempt_001 E b fs m (sleep 400 w2))) \<and>
   filter is_sleep (new_events w (snd (commitFilesAtomically_001 E b fs m w))) = [Sleep 200, Sleep 400] \<and>
   length (filter (\<lambda>e. e = Fetch (GetRef b))
             (new_events w (snd (commitFilesAtomically_001 E b fs m w)))) = 3"
proof -
  obtain e1 w1 e2 w2 e3 w3 t1 t2 t3 where a:
    "attempt_001 E b fs m w = (Inl e1, w1)"
    "attempt_001 E b fs m (sleep 200 w1) = (Inl e2, w2)"
    "attempt_001 E b fs m (sleep 400 w2) = (Inl e3, w3)"
    and r:
    "commitFilesAtomically_001 E b fs m w = (Inl e3, w3)"
    "snd w1 = snd w @ Fetch (GetRef b) # t1"
    "snd w2 = snd w1 @ Sleep 200 # Fetch (GetRef b) # t2"
    "snd w3 = snd w2 @ Sleep 400 # Fetch (GetRef b) # t3"
    "list_all after_head t1" "list_all after_head t2" "list_all after_head t3"
    using commit_001_run [of E b fs m w] by blast
  have n: "new_events w w3 =
      Fetch (GetRef b) # t1 @ Sleep 200 # Fetch (GetRef b) # t2 @ Sleep 400 # Fetch (GetRef b) # t3"
    using r(2,3,4) by (simp add: new_events_def)
  have s: "filter is_sleep (new_events w w3) = [Sleep 200, Sleep 400]"
    using r(5,6,7) by (simp add: n after_head_no_sleep)
  have g: "length (filter (\<lambda>e. e = Fetch (GetRef b)) (new_events w w3)) = 3"
    using r(5,6,7) by (simp add: n after_head_no_GetRef)
  from s g r(1) retry_unroll [of E b fs m w] show ?thesis
    by simp
qed

text \<open>
  Claim C4, as the code has it. The \<open>catch\<close> does not look at the error: whatever the
  first attempt throws, a delay of 200 ms follows and the pipeline runs again from the
  read of the head; whatever the second throws, a delay of 400 ms and a third run follow;
  only what the third attempt throws reaches the caller.
\<close>

theorem retry_on_any_error_001:
  assumes "attempt_001 E b fs m w = (Inl err1, w1)"
    and "attempt_001 E b fs m (sleep 200 w1) = (Inl err2, w2)"
    and "attempt_001 E b fs m (sleep 400 w2) = (Inl err3, w3)"
  shows "commitFilesAtomically_001 E b fs m w = (Inl err3, w3) \<and>
    (\<exists>t2 t3. snd w3 = snd w1 @ Sleep 200 # Fetch (GetRef b) # t2 @ Sleep 400 # Fetch (GetRef b) # t3)"
proof -
  obtain e1' w1' e2' w2' e3' w3' t1 t2 t3 where r:
    "attempt_001 E b fs m w = (Inl e1', w1')"
    "attempt_001 E b fs m (sleep 200 w1') = (Inl e2', w2')"
    "attempt_001 E b fs m (sleep 400 w2') = (Inl e3', w3')"
    "commitFilesAtomically_001 E b fs m w = (Inl e3', w3')"
    "snd w2' = snd w1' @ Sleep 200 # Fetch (GetRef b) # t2"
    "snd w3' = snd w2' @ Sleep 400 # Fetch (GetRef b) # t3"
    using commit_001_run [of E b fs m w] by blast
  from r(1) assms(1) have 1: "w1' = w1" by simp
  with r(2) assms(2) have 2: "w2' = w2" by simp
  with r(3) assms(3) have 3: "w3' = w3" "e3' = err3" by simp_all
  from r(5,6) 1 2 3 have "snd w3 = snd w1 @ Sleep 200 # Fetch (GetRef b) # t2 @ Sleep 400 # Fetch (GetRef b) # t3"
    by simp
  with r(4) 3 show ?thesis by blast
qed

text \<open>
  Claim C4, an instance with three kinds of failure: the read of the head answers 500,
  then the fetch of the commit rejects, then the tree step throws.
\<close>

theorem retry_on_any_error_001_witness:
  "commitFilesAtomically_001 (scripted_env ParseThrows) ''main'' two_files ''msg''
     ([reply_text 500 ''boom'', ref_at ''p0'', Rejects, ref_at ''p0'', commit_with_tree ''t0'',
       created ''b1'', created ''b2''], []) =
   (Inl (ReferenceError ''base_tree is not defined''),
    ([], [Fetch (GetRef ''main''), Sleep 200, Fetch (GetRef ''main''), Fetch (GetCommit ''p0''),
          Sleep 400, Fetch (GetRef ''main''), Fetch (GetCommit ''p0''),
          Fetch (PostBlob (Base64_bytes [1, 2, 3])), Fetch (PostBlob (Base64_json (JObj [])))]))"
proof -
  let ?E = "scripted_env ParseThrows :: fetch_result list env"
  have a1: "attempt_001 ?E ''main'' two_files ''msg''
     ([reply_text 500 ''boom'', ref_at ''p0'', Rejects, ref_at ''p0'', commit_with_tree ''t0'',
       created ''b1'', created ''b2''], []) =
    (Inl (Error ''ref fetch failed: 500 boom''),
     ([ref_at ''p0'', Rejects, ref_at ''p0'', commit_with_tree ''t0'', created ''b1'', created ''b2''],
      [Fetch (GetRef ''main'')]))"
    by (simp add: step_eval)
  have a2: "attempt_001 ?E ''main'' two_files ''msg''
     (sleep 200 ([ref_at ''p0'', Rejects, ref_at ''p0'', commit_with_tree ''t0'', created ''b1'',
        created ''b2''], [Fetch (GetRef ''main'')])) =
    (Inl NetworkError,
     ([ref_at ''p0'', commit_with_tree ''t0'', created ''b1'', created ''b2''],
      [Fetch (GetRef ''main''), Sleep 200, Fetch (GetRef ''main''), Fetch (GetCommit ''p0'')]))"
    by (simp add: step_eval)
  have a3: "attempt_001 ?E ''main'' two_files ''msg''
     (sleep 400 ([ref_at ''p0'', commit_with_tree ''t0'', created ''b1'', created ''b2''],
        [Fetch (GetRef ''main''), Sleep 200, Fetch (GetRef ''main''), Fetch (GetCommit ''p0'')])) =
    (Inl (ReferenceError ''base_tree is not defined''),
     ([], [Fetch (GetRef ''main''), Sleep 200, Fetch (GetRef ''main''), Fetch (GetCommit ''p0''),
           Sleep 400, Fetch (GetRef ''main''), Fetch (GetCommit ''p0''),
           Fetch (PostBlob (Base64_bytes [1, 2, 3])), Fetch (PostBlob (Base64_json (JObj [])))]))"
    by (simp add: step_eval two_files_def filesToCommit_def contentPath_def)
  from retry_on_any_error_001 [OF a1 a2 a3] show ?thesis
    by simp
qed

text \<open>
  Claim C4 as written fails: a failure that is no conflict of the ref update, a status
  500 at the read of the head, does not end the call. The pipeline runs three times.
\<close>

theorem abort_without_retry_counterexample:
  "commitFilesAtomically_001 (scripted_env ParseThrows) ''main'' two_files ''msg''
     ([reply_text 500 ''boom'', reply_text 500 ''boom'', reply_text 500 ''boom''], []) =
   (Inl (Error ''ref fetch failed: 500 boom''),
    ([], [Fetch (GetRef ''main''), Sleep 200, Fetch (GetRef ''main''), Sleep 400,
          Fetch (GetRef ''main'')]))"
  by (simp add: commitFilesAtomically_001_def step_eval)

subsection \<open>The update of the ref\<close>





subsection \<open>The path of the upload\<close>

lemma toString_36: "toString_radix 36 n =
    (if n < 36 then [digit_char n] else toString_radix 36 (n div 36) @ [digit_char (n mod 36)])"
  by (subst toString_radix.simps) simp

lemma distinct_digits36: "distinct digits36"
  by (simp add: digits36_def)

lemma length_digits36: "length digits36 = 36"
  by (simp add: digits36_def)

lemma digit_char_inj:
  assumes "k < 36" "j < 36" "digit_char k = digit_char j"
  shows "k = j"
  using assms distinct_digits36 length_digits36
  by (simp add: digit_char_def nth_eq_iff_index_eq)

lemma digit_char_no_dash: "digit_char k \<noteq> CHR ''-''"
proof -
  have "digit_char k \<in> set digits36"
    by (simp add: digit_char_def length_digits36)
  moreover have "CHR ''-'' \<notin> set digits36"
    by (simp add: digits36_def)
  ultimately show ?thesis by metis
qed

lemma toString_36_no_dash: "CHR ''-'' \<notin> set (toString_radix 36 n)"
proof (induction n rule: less_induct)
  case (less n)
  show ?case
  proof (cases "n < 36")
    case True
    then show ?thesis
      using digit_char_no_dash [of n] by (subst toString_36) auto
  next
    case False
    then have "n div 36 < n" by simp
    with less have "CHR ''-'' \<notin> set (toString_radix 36 (n div 36))" by blast
    with False show ?thesis
      using digit_char_no_dash [of "n mod 36"] by (subst toString_36) auto
  qed
qed

lemma toString_36_nonempty: "toString_radix 36 n \<noteq> []"
  by (subst toString_36) simp

lemma toString_36_inj: "toString_radix 36 n = toString_radix 36 k \<Longrightarrow> n = k"
proof (induction n arbitrary: k rule: less_induct)
  case (less n)
  show ?case
  proof (cases "n < 36")
    case n: True
    show ?thesis
    proof (cases "k < 36")
      case True
      with n less.prems show ?thesis
        by (simp add: toString_36 [of n] toString_36 [of k] digit_char_inj)
    next
      case False
      with n less.prems toString_36_nonempty [of "k div 36"] show ?thesis
        by (simp add: toString_36 [of n] toString_36 [of k])
    qed
  next
    case n: False
    show ?thesis
    proof (cases "k < 36")
      case True
      with n less.prems toString_36_nonempty [of "n div 36"] show ?thesis
        by (simp add: toString_36 [of n] toString_36 [of k])
    next
      case False
      with n less.prems have e: "toString_radix 36 (n div 36) = toString_radix 36 (k div 36)"
        "digit_char (n mod 36) = digit_char (k mod 36)"
        by (simp_all add: toString_36 [of n] toString_36 [of k])
      from n have "n div 36 < n" by simp
      with less.IH e(1) have "n div 36 = k div 36" by blast
      moreover from e(2) have "n mod 36 = k mod 36"
        by (simp add: digit_char_inj)
      ultimately show ?thesis
        by (metis div_mult_mod_eq)
    qed
  qed
qed

lemma split_at_dash:
  assumes "a @ ''-'' @ x = b @ ''-'' @ y" "CHR ''-'' \<notin> set a" "CHR ''-'' \<notin> set b"
  shows "a = b \<and> x = y"
proof -
  from assms(2) have "\<forall>c\<in>set a. c \<noteq> CHR ''-''" by auto
  then have "takeWhile (\<lambda>c. c \<noteq> CHR ''-'') (a @ ''-'' @ x) = a"
    by (simp add: takeWhile_append2)
  moreover from assms(3) have "\<forall>c\<in>set b. c \<noteq> CHR ''-''" by auto
  then have "takeWhile (\<lambda>c. c \<noteq> CHR ''-'') (b @ ''-'' @ y) = b"
    by (simp add: takeWhile_append2)
  ultimately have "a = b" using assms(1) by simp
  with assms(1) show ?thesis by simp
qed

lemma uniquePrefix_eq_iff:
  "uniquePrefix n1 r1 = uniquePrefix n2 r2 \<longleftrightarrow> n1 = n2 \<and> take 4 (drop 2 r1) = take 4 (drop 2 r2)"
proof
  assume "uniquePrefix n1 r1 = uniquePrefix n2 r2"
  then have "toString_radix 36 n1 @ ''-'' @ take 4 (drop 2 r1) =
      toString_radix 36 n2 @ ''-'' @ take 4 (drop 2 r2)"
    by (simp add: uniquePrefix_def Let_def del: toString_radix.simps)
  then have "toString_radix 36 n1 = toString_radix 36 n2 \<and> take 4 (drop 2 r1) = take 4 (drop 2 r2)"
    using split_at_dash toString_36_no_dash by blast
  then show "n1 = n2 \<and> take 4 (drop 2 r1) = take 4 (drop 2 r2)"
    using toString_36_inj by blast
next
  assume "n1 = n2 \<and> take 4 (drop 2 r1) = take 4 (drop 2 r2)"
  then show "uniquePrefix n1 r1 = uniquePrefix n2 r2"
    by (simp add: uniquePrefix_def Let_def del: toString_radix.simps)
qed

lemma join_path_inj: "join_path dir a = join_path dir b \<longleftrightarrow> a = b"
  by (simp add: join_path_def)

lemma unique_path_eq_iff:
  "join_path dir (uniquePrefix n1 r1 @ ''-'' @ name) = join_path dir (uniquePrefix n2 r2 @ ''-'' @ name)
     \<longleftrightarrow> n1 = n2 \<and> take 4 (drop 2 r1) = take 4 (drop 2 r2)"
  by (simp add: join_path_inj uniquePrefix_eq_iff)

lemma unique_path_differs:
  "join_path dir (uniquePrefix n r @ ''-'' @ name) \<noteq> join_path dir name"
proof -
  have "length (uniquePrefix n r @ ''-'' @ name) > length name" by simp
  then have "uniquePrefix n r @ ''-'' @ name \<noteq> name" by (metis less_irrefl)
  then show ?thesis by (simp add: join_path_inj)
qed

text \<open>
  Claim C9, as the code has it. With \<open>overwrite\<close> false: when the probe of
  \<open>dir/filename\<close> answers 2xx, the final name is \<open>prefix-filename\<close> in the same
  directory; when it answers 404, the path is \<open>dir/filename\<close> itself. The prefix is
  \<open>Date.now()\<close> in base 36, a dash, and the characters 2 to 5 of
  \<open>Math.random().toString(36)\<close>, which are at most four. The renamed path always
  differs from \<open>dir/filename\<close>, and two renamed paths of one file are equal exactly
  when the clock reading and the kept random characters are both equal: a later request
  gets yet another path when one of the two differs, and the same path when neither does.
\<close>

theorem resolvePath_001_cases:
  "(fetch E (GetContents (join_path dir name) branch) w = (Resolves res, w') \<and> ok res \<longrightarrow>
      resolvePath_001 E branch False dir name rd w =
        (Inr (Inr (uniquePrefix (date_now rd) (random_36 rd) @ ''-'' @ name,
              join_path dir (uniquePrefix (date_now rd) (random_36 rd) @ ''-'' @ name))), w')) \<and>
   (fetch E (GetContents (join_path dir name) branch) w = (Resolves res, w') \<and> status res = 404 \<longrightarrow>
      resolvePath_001 E branch False dir name rd w = (Inr (Inr (name, join_path dir name)), w')) \<and>
   uniquePrefix n r = toString_radix 36 n @ ''-'' @ take 4 (drop 2 r) \<and>
   join_path dir (uniquePrefix n r @ ''-'' @ name) \<noteq> join_path dir name \<and>
   (join_path dir (uniquePrefix n r @ ''-'' @ name) = join_path dir (uniquePrefix n2 r2 @ ''-'' @ name)
      \<longleftrightarrow> n = n2 \<and> take 4 (drop 2 r) = take 4 (drop 2 r2))"
proof -
  have a: "fetch E (GetContents (join_path dir name) branch) w = (Resolves res, w') \<and> ok res \<longrightarrow>
      resolvePath_001 E branch False dir name rd w =
        (Inr (Inr (uniquePrefix (date_now rd) (random_36 rd) @ ''-'' @ name,
              join_path dir (uniquePrefix (date_now rd) (random_36 rd) @ ''-'' @ name))), w')"
    by (simp add: resolvePath_001_def bind_def await_fetch_def return_def Let_def)
  have b: "fetch E (GetContents (join_path dir name) branch) w = (Resolves res, w') \<and> status res = 404 \<longrightarrow>
      resolvePath_001 E branch False dir name rd w = (Inr (Inr (name, join_path dir name)), w')"
    by (simp add: resolvePath_001_def bind_def await_fetch_def return_def Let_def ok_def)
  have c: "uniquePrefix n r = toString_radix 36 n @ ''-'' @ take 4 (drop 2 r)"
    by (simp add: uniquePrefix_def Let_def del: toString_radix.simps)
  from a b c unique_path_differs [of dir n r name] unique_path_eq_iff [of dir n r name n2 r2]
  show ?thesis by blast
qed

lemmas fetch_eval = fetch_def scripted_def scripted_env_def reply_def reply_text_def ok_def
  contentPath_def

text \<open>
  Claim C9, instances: \<open>images/photo.png\<close> exists and the upload is renamed; it does
  not exist and the upload keeps its name.
\<close>

theorem resolvePath_001_cases_witness:
  "resolvePath_001 (scripted_env ParseThrows) ''main'' False ''images'' ''photo.png''
     (readings_at 1730000000000 ''0.4fzyo82mvyr'') ([reply 200 (JObj [])], []) =
     (Inr (Inr (''m2r1bz7k-4fzy-photo.png'', ''images/m2r1bz7k-4fzy-photo.png'')),
      ([], [Fetch (GetContents ''images/photo.png'' ''main'')])) \<and>
   resolvePath_001 (scripted_env ParseThrows) ''main'' False ''images'' ''photo.png''
     (readings_at 1730000000000 ''0.4fzyo82mvyr'') ([reply_text 404 ''Not Found''], []) =
     (Inr (Inr (''photo.png'', ''images/photo.png'')),
      ([], [Fetch (GetContents ''images/photo.png'' ''main'')]))"
proof -
  have 1: "fetch (scripted_env ParseThrows) (GetContents (join_path ''images'' ''photo.png'') ''main'')
      ([reply 200 (JObj [])], []) =
      (Resolves \<lparr>status = 200, body_text = [], body_json = Some (JObj [])\<rparr>,
       ([], [Fetch (GetContents ''images/photo.png'' ''main'')])) \<and>
     ok \<lparr>status = 200, body_text = [], body_json = Some (JObj [])\<rparr>"
    by (simp add: fetch_eval join_path_def)
  have 2: "fetch (scripted_env ParseThrows) (GetContents (join_path ''images'' ''photo.png'') ''main'')
      ([reply_text 404 ''Not Found''], []) =
      (Resolves \<lparr>status = 404, body_text = ''Not Found'', body_json = None\<rparr>,
       ([], [Fetch (GetContents ''images/photo.png'' ''main'')])) \<and>
     status \<lparr>status = 404, body_text = ''Not Found'', body_json = None\<rparr> = 404"
    by (simp add: fetch_eval join_path_def)
  have u: "uniquePrefix (date_now (readings_at 1730000000000 ''0.4fzyo82mvyr''))
      (random_36 (readings_at 1730000000000 ''0.4fzyo82mvyr'')) = ''m2r1bz7k-4fzy''"
    by (simp add: uniquePrefix_def readings_at_def digit_char_def digits36_def)
  from resolvePath_001_cases [THEN conjunct1, rule_format, OF 1]
    resolvePath_001_cases [THEN conjunct2, THEN conjunct1, rule_format, OF 2] u
  show ?thesis
    by (simp add: join_path_def)
qed

text \<open>
  Claim C9 as written fails: two requests for the existing \<open>images/photo.png\<close> in
  the same millisecond, with two random draws that agree on the four characters kept,
  get the same path, not yet another one. And the random component is shorter than four
  characters when the draw has a short rendering: 0.5 is \<open>0.i\<close> in base 36.
\<close>

theorem same_unique_path_counterexample:
  "fst (resolvePath_001 (scripted_env ParseThrows) ''main'' False ''images'' ''photo.png''
     (readings_at 1730000000000 ''0.4fzyo82mvyr'') ([reply 200 (JObj [])], [])) =
     Inr (Inr (''m2r1bz7k-4fzy-photo.png'', ''images/m2r1bz7k-4fzy-photo.png'')) \<and>
   fst (resolvePath_001 (scripted_env ParseThrows) ''main'' False ''images'' ''photo.png''
     (readings_at 1730000000000 ''0.4fzy1cq9d0a'') ([reply 200 (JObj [])], [])) =
     Inr (Inr (''m2r1bz7k-4fzy-photo.png'', ''images/m2r1bz7k-4fzy-photo.png'')) \<and>
   uniquePrefix 1730000000000 ''0.i'' = ''m2r1bz7k-i''"
  by (simp add: resolvePath_001_def step_eval uniquePrefix_def readings_at_def join_path_def Let_def)

subsection \<open>The manifest\<close>

lemmas handler_eval = onRequestPost_001_def unauthorized_def is_multipart_def pool_config_def
  readings_at_def upload_of_def dir_of_def overwrite_of_def finalName_of_def branch_of_def
  sanitizeDirAllowEmpty_def sanitizeFilename_def is_alnum_def slash_def toLowerCase_def
  maxBytes_def resolvePath_001_def fetchManifest_001_def join_path_def contentPath_def
  default_manifest_def updateManifest_def entry_of_def entry_path_def normDir_of_def
  filesToCommit_def commitFilesAtomically_001_def uniquePrefix_def safeJSON_def
  decode_manifest_def rawB64_of_def bumpVersion_def match_version_def trim_def is_space_def
  is_digit_def Number_digits_def digit_val_def rawUrl_of_def error_response_def too_large_def

text \<open>
  Scenario A run through the handler of \<open>part_001\<close>: an authorised upload of
  \<open>photo.png\<close> into \<open>images\<close>, nothing there yet, no manifest yet, and a remote that
  accepts every request.
\<close>

lemma scenario_A_run:
  "onRequestPost_001 (scripted_env ParseThrows) pool_config (readings_at 1730000000000 ''0.4fzyo82mvyr'')
     (upload_of ''images'' ''photo.png'' ''false'')
     ([reply_text 404 ''Not Found'', reply_text 404 ''Not Found'',
       ref_at ''p0'', commit_with_tree ''t0'', created ''b1'', created ''b2'',
       ref_at ''p0'', commit_with_tree ''t0'', created ''b1'', created ''b2'',
       ref_at ''p0'', commit_with_tree ''t0'', created ''b1'', created ''b2'',
       created ''t1'', created ''c1'', reply 200 (JObj [])], []) =
   (Inl (ReferenceError ''base_tree is not defined''),
    ([created ''t1'', created ''c1'', reply 200 (JObj [])],
     [Fetch (GetContents ''images/photo.png'' ''main''),
      Fetch (GetContents ''content.json'' ''main''),
      Fetch (GetRef ''main''), Fetch (GetCommit ''p0''),
      Fetch (PostBlob (Base64_bytes [1, 2, 3])),
      Fetch (PostBlob (Base64_json (JObj [(''version'', JStr ''1.1''),
         (''generated_at'', JStr ''2024-10-27T03:33:20.002Z''),
         (''files'', JArr [JObj [(''dir'', JStr ''/images''), (''name'', JStr ''photo.png''),
            (''path'', JStr ''/images/photo.png''), (''type'', JStr ''image/png''),
            (''description'', JStr []), (''uploaded_at'', JStr ''2024-10-27T03:33:20.001Z'')]])]))),
      Sleep 200,
      Fetch (GetRef ''main''), Fetch (GetCommit ''p0''),
      Fetch (PostBlob (Base64_bytes [1, 2, 3])),
      Fetch (PostBlob (Base64_json (JObj [(''version'', JStr ''1.1''),
         (''generated_at'', JStr ''2024-10-27T03:33:20.002Z''),
         (''files'', JArr [JObj [(''dir'', JStr ''/images''), (''name'', JStr ''photo.png''),
            (''path'', JStr ''/images/photo.png''), (''type'', JStr ''image/png''),
            (''description'', JStr []), (''uploaded_at'', JStr ''2024-10-27T03:33:20.001Z'')]])]))),
      Sleep 400,
      Fetch (GetRef ''main''), Fetch (GetCommit ''p0''),
      Fetch (PostBlob (Base64_bytes [1, 2, 3])),
      Fetch (PostBlob (Base64_json (JObj [(''version'', JStr ''1.1''),
         (''generated_at'', JStr ''2024-10-27T03:33:20.002Z''),
         (''files'', JArr [JObj [(''dir'', JStr ''/images''), (''name'', JStr ''photo.png''),
            (''path'', JStr ''/images/photo.png''), (''type'', JStr ''image/png''),
            (''description'', JStr []), (''uploaded_at'', JStr ''2024-10-27T03:33:20.001Z'')]])])))]))"
  by (simp add: handler_eval step_eval Let_def)








text \<open>
  A manifest that parses to \<open>null\<close> is not repaired either: reading \<open>files\<close> throws,
  and the handler of \<open>part_001\<close> rejects before it commits anything.
\<close>

lemma null_manifest_throws:
  "updateManifest JNull entry now = Inl TypeError \<and>
   onRequestPost_001 (scripted_env (Parsed JNull)) pool_config (readings_at 1730000000000 ''0.4fzyo82mvyr'')
     (upload_of ''images'' ''photo.png'' ''false'')
     ([reply_text 404 ''Not Found'', reply 200 (JObj [(''content'', JStr ''bnVsbA=='')])], []) =
   (Inl TypeError,
    ([], [Fetch (GetContents ''images/photo.png'' ''main''),
          Fetch (GetContents ''content.json'' ''main'')]))"
  by (simp add: handler_eval step_eval Let_def)

subsection \<open>The upload of \<open>part_001\<close> never completes\<close>

lemma resolvePath_001_early:
  "resolvePath_001 E br ov dir nm rd w = (Inr (Inl resp), w') \<Longrightarrow> \<exists>b. resp = JsonResponse b 502"
  by (auto simp: resolvePath_001_def bind_def return_def await_fetch_def Let_def
      split: if_splits prod.splits sum.splits fetch_result.splits)

lemma fetchManifest_001_early:
  "fetchManifest_001 E br rd w = (Inr (Inl resp), w') \<Longrightarrow> \<exists>b. resp = JsonResponse b 502"
  by (auto simp: fetchManifest_001_def bind_def return_def lift_def await_fetch_def
      split: if_splits prod.splits sum.splits fetch_result.splits)

lemma bind_commit_001_never_Inr:
  "bind (commitFilesAtomically_001 E b fs m) f w \<noteq> (Inr x, w')"
proof -
  obtain e w1 where "commitFilesAtomically_001 E b fs m w = (Inl e, w1)"
    using commit_001_run [of E b fs m w] by blast
  then show ?thesis by (simp add: bind_def)
qed

lemma onRequestPost_001_never_200:
  "onRequestPost_001 E cfg rd req w \<noteq> (Inr (JsonResponse body 200), w')"
proof
  assume h: "onRequestPost_001 E cfg rd req w = (Inr (JsonResponse body 200), w')"
  show False
  proof (cases "unauthorized cfg req \<or> \<not> is_multipart req \<or> form_file req = None")
    case True
    with h show False
      by (auto simp: onRequestPost_001_def return_def error_response_def split: if_splits)
  next
    case False
    then obtain f where f: "form_file req = Some f" by auto
    show False
    proof (cases "length (file_bytes f) > maxBytes")
      case True
      with h False f show False
        by (auto simp: onRequestPost_001_def return_def too_large_def error_response_def Let_def)
    next
      case small: False
      let ?dir = "dir_of req" and ?br = "branch_of cfg" and ?nm = "finalName_of req f"
      obtain r w1 where r: "resolvePath_001 E ?br (overwrite_of req) ?dir ?nm rd w = (r, w1)"
        using prod.exhaust by blast
      show False
      proof (cases r)
        case (Inl e)
        with h False f small r show False
          by (simp add: onRequestPost_001_def Let_def bind_def)
      next
        case (Inr rr)
        show False
        proof (cases rr)
          case (Inl resp)
          with r Inr resolvePath_001_early obtain b where "resp = JsonResponse b 502" by blast
          with h False f small r Inr Inl show False
            by (simp add: onRequestPost_001_def Let_def bind_def return_def)
        next
          case (Inr names)
          obtain targetName safePath where n: "names = (targetName, safePath)" by (cases names)
          obtain m w2 where m: "fetchManifest_001 E ?br rd w1 = (m, w2)"
            using prod.exhaust by blast
          show False
          proof (cases m)
            case (Inl e)
            with h False f small r \<open>r = Inr rr\<close> Inr n m show False
              by (simp add: onRequestPost_001_def Let_def bind_def)
          next
            case mr: (Inr mm)
            show False
            proof (cases mm)
              case (Inl resp)
              with m mr fetchManifest_001_early obtain b where "resp = JsonResponse b 502" by blast
              with h False f small r \<open>r = Inr rr\<close> Inr n m mr Inl show False
                by (simp add: onRequestPost_001_def Let_def bind_def return_def)
            next
              case c: (Inr contentObj)
              show False
              proof (cases "updateManifest contentObj
                  (entry_of ?dir targetName (file_type f) (iso_uploaded rd)) (iso_generated rd)")
                case (Inl e)
                with h False f small r \<open>r = Inr rr\<close> Inr n m mr c show False
                  by (simp add: onRequestPost_001_def Let_def bind_def lift_def)
              next
                case u: (Inr newContent)
                with h False f small r \<open>r = Inr rr\<close> Inr n m mr c
                have "bind (commitFilesAtomically_001 E ?br
                          (filesToCommit safePath (Base64_bytes (file_bytes f)) (Base64_json newContent))
                          (''Upload '' @ targetName @ '' and update content.json''))
                        (\<lambda>newCommitSha. return (JsonResponse
                              (JObj [(''ok'', JBool True),
                                     (''path'', JStr safePath),
                                     (''filename'', JStr targetName),
                                     (''rawUrl'', JStr (rawUrl_of cfg safePath))]) 200)) w2
                       = (Inr (JsonResponse body 200), w')"
                  by (simp add: onRequestPost_001_def Let_def bind_def lift_def)
                then show False
                  by (simp add: bind_commit_001_never_Inr)
              qed
            qed
          qed
        qed
      qed
    qed
  qed
qed

text \<open>
  Claim C1, against the code. For every request, remote and state the handler of
  \<open>part_001\<close> never answers 200, so no upload completes and no commit with both files
  is ever installed. In the run of Scenario A, against a remote that accepts every
  request, the handler throws the ReferenceError of the tree step, and after the two
  reads of the contents API the run only reads the head and its commit and creates
  blobs: no tree, no commit, no update of the ref. The change-set of that upload has the
  two entries; the change-set of an upload whose path is \<open>content.json\<close> has one.
\<close>

theorem upload_never_completes_001:
  "fst (onRequestPost_001 E cfg rd req w) \<noteq> Inr (JsonResponse body 200) \<and>
   fst (onRequestPost_001 (scripted_env ParseThrows) pool_config
           (readings_at 1730000000000 ''0.4fzyo82mvyr'') (upload_of ''images'' ''photo.png'' ''false'')
           ([reply_text 404 ''Not Found'', reply_text 404 ''Not Found'',
             ref_at ''p0'', commit_with_tree ''t0'', created ''b1'', created ''b2'',
             ref_at ''p0'', commit_with_tree ''t0'', created ''b1'', created ''b2'',
             ref_at ''p0'', commit_with_tree ''t0'', created ''b1'', created ''b2'',
             created ''t1'', created ''c1'', reply 200 (JObj [])], [])) =
     Inl (ReferenceError ''base_tree is not defined'') \<and>
   list_all before_tree (drop 2 (snd (snd (onRequestPost_001 (scripted_env ParseThrows) pool_config
           (readings_at 1730000000000 ''0.4fzyo82mvyr'') (upload_of ''images'' ''photo.png'' ''false'')
           ([reply_text 404 ''Not Found'', reply_text 404 ''Not Found'',
             ref_at ''p0'', commit_with_tree ''t0'', created ''b1'', created ''b2'',
             ref_at ''p0'', commit_with_tree ''t0'', created ''b1'', created ''b2'',
             ref_at ''p0'', commit_with_tree ''t0'', created ''b1'', created ''b2'',
             created ''t1'', created ''c1'', reply 200 (JObj [])], []))))) \<and>
   filesToCommit ''images/photo.png'' b64 contentB64 =
     [(''images/photo.png'', \<lparr>contentBase64 = b64, mode = None\<rparr>),
      (''content.json'', \<lparr>contentBase64 = contentB64, mode = None\<rparr>)] \<and>
   filesToCommit ''content.json'' b64 contentB64 =
     [(''content.json'', \<lparr>contentBase64 = contentB64, mode = None\<rparr>)]"
proof -
  have "fst (onRequestPost_001 E cfg rd req w) \<noteq> Inr (JsonResponse body 200)"
    using onRequestPost_001_never_200 [of E cfg rd req w body "snd (onRequestPost_001 E cfg rd req w)"]
    by (metis prod.collapse)
  moreover have "filesToCommit ''images/photo.png'' b64 contentB64 =
     [(''images/photo.png'', \<lparr>contentBase64 = b64, mode = None\<rparr>),
      (''content.json'', \<lparr>contentBase64 = contentB64, mode = None\<rparr>)]"
    "filesToCommit ''content.json'' b64 contentB64 =
     [(''content.json'', \<lparr>contentBase64 = contentB64, mode = None\<rparr>)]"
    by (simp_all add: filesToCommit_def contentPath_def)
  ultimately show ?thesis
    by (simp add: scenario_A_run)
qed

subsection \<open>The handler of \<open>part_000\<close>\<close>








end
